theory Spec2Isabelle
  imports Main "HOL-Library.Word"
begin

section \<open>The probe protection plugin of grblHAL (probe\_plugin.c)\<close>

text \<open>
  The plugin keeps its state in file-level statics and hooks itself into the host by
  swapping function pointers. The embedding is a record of those statics, of the host
  slots and settings the file reads and writes, and of what the hardware would answer;
  every function of the file is a function on that record. Calls into the host are
  appended to a trace, in the order the C code makes them.
\<close>

subsection \<open>Function pointers\<close>

text \<open>
  A function pointer is NULL (\<open>None\<close>), a function of the host (numbered), or the one
  function of this file that the file stores in slots of that pointer type. The names
  below say which function that is for each slot; they are input abbreviations of the
  same constructor, since a slot only ever holds functions of its own type.
\<close>

datatype handler = Plugin_fn | Host nat

abbreviation (input) ptr_on_pulse_start :: handler where
  "ptr_on_pulse_start \<equiv> Plugin_fn"
abbreviation (input) ptr_probeGetState :: handler where
  "ptr_probeGetState \<equiv> Plugin_fn"
abbreviation (input) ptr_onSpindleSetState :: handler where
  "ptr_onSpindleSetState \<equiv> Plugin_fn"
abbreviation (input) ptr_onSpindleSelect :: handler where
  "ptr_onSpindleSelect \<equiv> Plugin_fn"
abbreviation (input) ptr_onToolSelected :: handler where
  "ptr_onToolSelected \<equiv> Plugin_fn"
abbreviation (input) ptr_on_probe_connected_toggle :: handler where
  "ptr_on_probe_connected_toggle \<equiv> Plugin_fn"
abbreviation (input) ptr_probe_fixture :: handler where
  "ptr_probe_fixture \<equiv> Plugin_fn"
abbreviation (input) ptr_probe_completed :: handler where
  "ptr_probe_completed \<equiv> Plugin_fn"
abbreviation (input) ptr_probe_start :: handler where
  "ptr_probe_start \<equiv> Plugin_fn"
abbreviation (input) ptr_probe_reset :: handler where
  "ptr_probe_reset \<equiv> Plugin_fn"
abbreviation (input) ptr_mcode_check :: handler where
  "ptr_mcode_check \<equiv> Plugin_fn"
abbreviation (input) ptr_mcode_validate :: handler where
  "ptr_mcode_validate \<equiv> Plugin_fn"
abbreviation (input) ptr_mcode_execute :: handler where
  "ptr_mcode_execute \<equiv> Plugin_fn"
abbreviation (input) ptr_report_options :: handler where
  "ptr_report_options \<equiv> Plugin_fn"

subsection \<open>Data\<close>

type_synonym u8 = "8 word"

text \<open>\<open>probe_protect_flags_t\<close>: the six configuration bits and two reserved ones.\<close>

record probe_protect_flags =
  invert :: bool
  hardlimits :: bool
  ext_pin :: bool
  ext_pin_inv :: bool
  tool_pin :: bool
  tool_pin_inv :: bool
  flags_reserved :: "2 word"

text \<open>\<open>flags.value = 0\<close> clears the whole byte.\<close>

definition flags_zero :: probe_protect_flags where
  "flags_zero = \<lparr>invert = False, hardlimits = False, ext_pin = False, ext_pin_inv = False,
     tool_pin = False, tool_pin_inv = False, flags_reserved = 0\<rparr>"

text \<open>\<open>probe_connected_flags_t\<close>: why the probe counts as connected.\<close>

record probe_connected_flags =
  toggle :: bool
  mcode :: bool
  conn_ext_pin :: bool
  t99 :: bool
  conn_reserved :: "4 word"

definition connected_zero :: probe_connected_flags where
  "connected_zero = \<lparr>toggle = False, mcode = False, conn_ext_pin = False, t99 = False,
     conn_reserved = 0\<rparr>"

text \<open>\<open>probe_connected.value\<close> read as a truth value: some bit of the byte is set.\<close>

definition connected_value :: "probe_connected_flags \<Rightarrow> bool" where
  "connected_value c =
     (toggle c \<or> mcode c \<or> conn_ext_pin c \<or> t99 c \<or> conn_reserved c \<noteq> 0)"

record probe_protect_settings_t =
  protect_port :: u8
  tool_port :: u8
  flags :: probe_protect_flags

text \<open>The host's probe sample, as far as this file reads and writes it.\<close>

record probe_state =
  triggered :: bool
  connected :: bool

record tool_data =
  tool_id :: nat

record user_mcode_ptrs =
  check :: "handler option"
  validate :: "handler option"
  execute :: "handler option"

record spindle_ptrs =
  set_state :: "handler option"

record parser_block =
  user_mcode :: int

subsection \<open>Calls into the host\<close>

datatype rt_command = CMD_RESET | CMD_PROBE_CONNECTED_TOGGLE

datatype message_type = Message_Info | Message_Warning

datatype rt_task = Warning_msg | Warning_no_port

text \<open>
  What a host function can see of the configuration when it is called: the two slots
  the plugin swaps at run time, the probe polarity and the hard limits.
\<close>

record hal_view =
  v_pulse_start :: "handler option"
  v_get_state :: handler
  v_invert_probe_pin :: bool
  v_limits_enabled :: bool

text \<open>
  A call of host function \<open>k\<close> through one of the saved pointers, with its arguments.
  Pointers to host data (\<open>stepper_t *\<close>, \<open>float *\<close>, \<open>plan_line_data_t *\<close>) are opaque
  numbers; a float is its 32-bit pattern, since the file only passes it on.
\<close>

datatype host_call =
    Pulse_start nat nat
  | Spindle_set_state nat u8 "32 word"
  | Driver_reset nat
  | Probe_connected_toggle nat
  | On_probe_start nat u8 nat nat
  | On_probe_completed nat
  | On_probe_fixture nat "tool_data option" bool bool
  | On_spindle_select nat spindle_ptrs
  | On_tool_selected nat tool_data
  | User_mcode_execute nat nat parser_block

datatype event =
    Enqueue_realtime_command rt_command
  | Report_message string message_type
  | Delay_ms nat
  | Limits_enable bool
  | Memcpy_to_nvs probe_protect_settings_t
  | Protocol_enqueue_rt_command rt_task
  | Ioport_claim u8 string
  | Register_interrupt_handler u8
  | Set_pin_description u8 string
  | Settings_register
  | Host_call host_call hal_view

text \<open>
  A call through a pointer can fail in two ways the C code does not guard against:
  the pointer is NULL, or it leads back to the calling function, which then never
  returns. The second is modelled with a bound on the call depth.
\<close>

datatype fault = Null_call | Stack_exhausted

subsection \<open>The state\<close>

record machine =
  \<comment> \<open>statics of the file\<close>
  n_ports :: u8
  max_port :: "32 word option"
  probe :: probe_state
  current_tool :: "tool_data option"
  probe_connect_port :: u8
  tool_probe_port :: u8
  nvs_invert_probe_pin :: bool
  probe_connected :: probe_connected_flags
  driver_reset :: "handler option"
  user_mcode_ptrs :: user_mcode_ptrs
  nvs_address :: nat
  on_report_options :: "handler option"
  probe_connected_toggle :: "handler option"
  probe_protect_settings :: probe_protect_settings_t
  on_probe_start :: "handler option"
  on_probe_completed :: "handler option"
  on_probe_fixture :: "handler option"
  on_spindle_select :: "handler option"
  stepper_pulse_start :: "handler option"
  on_spindle_set_state :: "handler option"
  on_tool_selected :: "handler option"
  probe_get_state :: "handler option"
  \<comment> \<open>slots of the host (\<open>hal\<close>, \<open>grbl\<close>) the file reads and writes\<close>
  hal_stepper_pulse_start :: "handler option"
  hal_probe_get_state :: handler
  hal_probe_connected_toggle :: "handler option"
  hal_driver_reset :: "handler option"
  hal_user_mcode :: user_mcode_ptrs
  grbl_on_probe_fixture :: "handler option"
  grbl_on_probe_completed :: "handler option"
  grbl_on_probe_start :: "handler option"
  grbl_on_spindle_select :: "handler option"
  grbl_on_tool_selected :: "handler option"
  grbl_on_report_options :: "handler option"
  \<comment> \<open>settings of the host and the state of its hard limits\<close>
  settings_invert_probe_pin :: bool
  settings_hard_enabled :: bool
  limits_enabled :: bool
  \<comment> \<open>what the hardware and the host services answer\<close>
  hw_probe :: probe_state
  hw_input :: "u8 \<Rightarrow> int"
  num_digital_in :: u8
  num_digital_out :: u8
  ioports_available :: u8
  ioport_can_claim_explicit :: bool
  ioport_claim :: "u8 \<Rightarrow> u8 option"
  register_interrupt_handler :: "u8 \<Rightarrow> bool"
  set_pin_description :: bool
  nvs_alloc :: nat
  nvs_store :: "probe_protect_settings_t option"
  host_returns :: "nat \<Rightarrow> bool"
  \<comment> \<open>the calls made so far\<close>
  trace :: "event list"

subsection \<open>Services of the host\<close>

definition view :: "machine \<Rightarrow> hal_view" where
  "view s = \<lparr>v_pulse_start = hal_stepper_pulse_start s,
     v_get_state = hal_probe_get_state s,
     v_invert_probe_pin = settings_invert_probe_pin s,
     v_limits_enabled = limits_enabled s\<rparr>"

definition emit :: "event \<Rightarrow> machine \<Rightarrow> machine" where
  "emit e s = s\<lparr>trace := trace s @ [e]\<rparr>"

definition enqueue_realtime_command :: "rt_command \<Rightarrow> machine \<Rightarrow> machine" where
  "enqueue_realtime_command c s = emit (Enqueue_realtime_command c) s"

definition report_message :: "string \<Rightarrow> message_type \<Rightarrow> machine \<Rightarrow> machine" where
  "report_message msg ty s = emit (Report_message msg ty) s"

definition protocol_enqueue_rt_command :: "rt_task \<Rightarrow> machine \<Rightarrow> machine" where
  "protocol_enqueue_rt_command t s = emit (Protocol_enqueue_rt_command t) s"

definition delay_ms :: "nat \<Rightarrow> machine \<Rightarrow> machine" where
  "delay_ms ms s = emit (Delay_ms ms) s"

text \<open>\<open>hal.limits.enable(on, ...)\<close> switches the hard limits.\<close>

definition limits_enable :: "bool \<Rightarrow> machine \<Rightarrow> machine" where
  "limits_enable on s = emit (Limits_enable on) (s\<lparr>limits_enabled := on\<rparr>)"

text \<open>\<open>hal.port.wait_on_input(Port_Digital, port, WaitMode_Immediate, 0.0f)\<close>: the level
  of the pin, or -1.\<close>

definition wait_on_input :: "u8 \<Rightarrow> machine \<Rightarrow> int" where
  "wait_on_input port s = hw_input s port"

definition memcpy_to_nvs :: "machine \<Rightarrow> machine" where
  "memcpy_to_nvs s =
     emit (Memcpy_to_nvs (probe_protect_settings s))
       (s\<lparr>nvs_store := Some (probe_protect_settings s)\<rparr>)"

text \<open>A host function is called: the call is recorded with what it can see.\<close>

definition call_host :: "host_call \<Rightarrow> machine \<Rightarrow> machine" where
  "call_host c s = emit (Host_call c (view s)) s"

definition RELAY_DEBOUNCE :: nat where
  "RELAY_DEBOUNCE = 50"

text \<open>\<open>STATE_CHECK_MODE\<close> is \<open>bit(1)\<close> in the host's headers.\<close>

definition STATE_CHECK_MODE :: nat where
  "STATE_CHECK_MODE = 2"

subsection \<open>Reading the probe\<close>

definition set_connected :: "u8 \<Rightarrow> bool \<Rightarrow> machine \<Rightarrow> machine" where
  "set_connected irq_port is_high s = enqueue_realtime_command CMD_PROBE_CONNECTED_TOGGLE s"

text \<open>
  \<open>triggered\<close> is a one-bit field of the host's \<open>probe_state_t\<close>: storing the \<open>int\<close>
  that \<open>wait_on_input\<close> returns keeps its lowest bit.
\<close>

definition to_bit :: "int \<Rightarrow> bool" where
  "to_bit v = (v mod 2 = 1)"

definition probeGetState :: "machine \<Rightarrow> probe_state" where
  "probeGetState s =
     (let pin = to_bit (wait_on_input (tool_probe_port s) s)
      in \<lparr>triggered =
            (if tool_pin_inv (flags (probe_protect_settings s)) then \<not> pin else pin),
          connected = True\<rparr>)"

text \<open>\<open>hal.probe.get_state()\<close>: the redirected reader of this file, or the host's.\<close>

definition get_state :: "machine \<Rightarrow> probe_state" where
  "get_state s =
     (case hal_probe_get_state s of
        Plugin_fn \<Rightarrow> probeGetState s
      | Host k \<Rightarrow> hw_probe s)"

subsection \<open>The pulse guard\<close>

fun on_pulse_start :: "nat \<Rightarrow> nat \<Rightarrow> machine \<Rightarrow> fault + machine" where
  "on_pulse_start 0 stepper s = Inl Stack_exhausted"
| "on_pulse_start (Suc depth) stepper s =
     (let sample = get_state s;
          s1 = (if triggered sample \<or> \<not> connected sample
                then report_message ''PROBE PROTECTED!'' Message_Warning
                       (enqueue_realtime_command CMD_RESET s)
                else s)
      in case stepper_pulse_start s1 of
           None \<Rightarrow> Inr s1
         | Some (Host k) \<Rightarrow> Inr (call_host (Pulse_start k stepper) s1)
         | Some Plugin_fn \<Rightarrow> on_pulse_start depth stepper s1)"

definition protection_on :: "machine \<Rightarrow> machine" where
  "protection_on s =
     s\<lparr>stepper_pulse_start := hal_stepper_pulse_start s,
       hal_stepper_pulse_start := Some ptr_on_pulse_start\<rparr>"

definition protection_off :: "machine \<Rightarrow> machine" where
  "protection_off s =
     (if stepper_pulse_start s \<noteq> None
      then s\<lparr>hal_stepper_pulse_start := stepper_pulse_start s,
             stepper_pulse_start := None\<rparr>
      else s)"

subsection \<open>The probe cycle\<close>

fun probe_start :: "nat \<Rightarrow> u8 \<Rightarrow> nat \<Rightarrow> nat \<Rightarrow> machine \<Rightarrow> fault + (bool \<times> machine)" where
  "probe_start 0 axes target pl_data s = Inl Stack_exhausted"
| "probe_start (Suc depth) axes target pl_data s =
     (let s1 = protection_off s
      in case on_probe_start s1 of
           None \<Rightarrow> Inr (True, s1)
         | Some (Host k) \<Rightarrow>
             Inr (host_returns s1 k, call_host (On_probe_start k axes target pl_data) s1)
         | Some Plugin_fn \<Rightarrow> probe_start depth axes target pl_data s1)"

fun probe_completed :: "nat \<Rightarrow> machine \<Rightarrow> fault + machine" where
  "probe_completed 0 s = Inl Stack_exhausted"
| "probe_completed (Suc depth) s =
     (let s1 = protection_on s;
          s2 = s1\<lparr>settings_invert_probe_pin := nvs_invert_probe_pin s1\<rparr>;
          s3 = limits_enable (settings_hard_enabled s2) s2;
          s4 = (case probe_get_state s3 of
                  Some p \<Rightarrow> s3\<lparr>hal_probe_get_state := p, probe_get_state := None\<rparr>
                | None \<Rightarrow> s3)
      in case on_probe_completed s4 of
           None \<Rightarrow> Inr s4
         | Some (Host k) \<Rightarrow> Inr (call_host (On_probe_completed k) s4)
         | Some Plugin_fn \<Rightarrow> probe_completed depth s4)"

fun probe_fixture ::
  "nat \<Rightarrow> tool_data option \<Rightarrow> bool \<Rightarrow> bool \<Rightarrow> machine \<Rightarrow> fault + (bool \<times> machine)" where
  "probe_fixture 0 tool at_g59_3 on s = Inl Stack_exhausted"
| "probe_fixture (Suc depth) tool at_g59_3 on s =
     (let s4 =
        (case tool of
           Some t \<Rightarrow>
             (let s1 = (if invert (flags (probe_protect_settings s))
                        then s\<lparr>settings_invert_probe_pin := \<not> nvs_invert_probe_pin s\<rparr>
                        else s);
                  s2 = (if tool_pin (flags (probe_protect_settings s1))
                        then s1\<lparr>probe := get_state s1,
                                probe_get_state := Some (hal_probe_get_state s1),
                                hal_probe_get_state := ptr_probeGetState\<rparr>
                        else s1);
                  s3 = (if \<not> settings_hard_enabled s2
                           \<and> hardlimits (flags (probe_protect_settings s2))
                        then limits_enable True s2
                        else s2)
              in delay_ms RELAY_DEBOUNCE s3)
         | None \<Rightarrow> s)
      in case on_probe_fixture s4 of
           None \<Rightarrow> Inr (True, s4)
         | Some (Host k) \<Rightarrow>
             Inr (host_returns s4 k, call_host (On_probe_fixture k tool at_g59_3 on) s4)
         | Some Plugin_fn \<Rightarrow> probe_fixture depth tool at_g59_3 on s4)"

subsection \<open>Sources of the connected state\<close>

fun on_probe_connected_toggle :: "nat \<Rightarrow> machine \<Rightarrow> fault + machine" where
  "on_probe_connected_toggle 0 s = Inl Stack_exhausted"
| "on_probe_connected_toggle (Suc depth) s =
     (let s1 = (if ext_pin (flags (probe_protect_settings s))
                then (let val = wait_on_input (probe_connect_port s) s;
                          pin = (val = 1);
                          pin' = (if ext_pin_inv (flags (probe_protect_settings s))
                                  then \<not> pin else pin)
                      in s\<lparr>probe_connected := (probe_connected s)\<lparr>conn_ext_pin := pin'\<rparr>\<rparr>)
                else s);
          s2 = (if conn_ext_pin (probe_connected s1)
                then report_message ''External Probe connected!'' Message_Info s1 else s1);
          s3 = (if t99 (probe_connected s2)
                then report_message ''T99 Probe connected!'' Message_Info s2 else s2);
          s4 = (if mcode (probe_connected s3)
                then report_message ''Mcode Probe connected!'' Message_Info s3 else s3);
          s5 = (if toggle (probe_connected s4)
                then report_message ''Probe connect toggled on'' Message_Info s4 else s4);
          s6 = (if connected_value (probe_connected s5)
                then protection_on s5
                else report_message ''Probe disconnected, protection off.'' Message_Info
                       (protection_off s5));
          sample = get_state s6
      in if \<not> connected sample
         then (case probe_connected_toggle s6 of
                 None \<Rightarrow> Inr s6
               | Some (Host k) \<Rightarrow> Inr (call_host (Probe_connected_toggle k) s6)
               | Some Plugin_fn \<Rightarrow> on_probe_connected_toggle depth s6)
         else Inr s6)"

fun onSpindleSetState :: "nat \<Rightarrow> u8 \<Rightarrow> 32 word \<Rightarrow> machine \<Rightarrow> fault + machine" where
  "onSpindleSetState 0 state rpm s = Inl Stack_exhausted"
| "onSpindleSetState (Suc depth) state rpm s =
     (let (state1, s1) =
            (if connected_value (probe_connected s) \<and> state \<noteq> 0
             then (0, report_message ''PROBE IS IN SPINDLE!'' Message_Warning
                        (enqueue_realtime_command CMD_RESET s))
             else (state, s))
      in case on_spindle_set_state s1 of
           None \<Rightarrow> Inl Null_call
         | Some (Host k) \<Rightarrow> Inr (call_host (Spindle_set_state k state1 rpm) s1)
         | Some Plugin_fn \<Rightarrow> onSpindleSetState depth state1 rpm s1)"

fun onSpindleSelect ::
  "nat \<Rightarrow> spindle_ptrs \<Rightarrow> machine \<Rightarrow> fault + (bool \<times> spindle_ptrs \<times> machine)" where
  "onSpindleSelect 0 spindle s = Inl Stack_exhausted"
| "onSpindleSelect (Suc depth) spindle s =
     (let s1 = s\<lparr>on_spindle_set_state := set_state spindle\<rparr>;
          spindle1 = spindle\<lparr>set_state := Some ptr_onSpindleSetState\<rparr>
      in case on_spindle_select s1 of
           None \<Rightarrow> Inr (True, spindle1, s1)
         | Some (Host k) \<Rightarrow>
             Inr (host_returns s1 k, spindle1, call_host (On_spindle_select k spindle1) s1)
         | Some Plugin_fn \<Rightarrow> onSpindleSelect depth spindle1 s1)"

fun onToolSelected :: "nat \<Rightarrow> tool_data \<Rightarrow> machine \<Rightarrow> fault + machine" where
  "onToolSelected 0 tool s = Inl Stack_exhausted"
| "onToolSelected (Suc depth) tool s =
     (let s1 = s\<lparr>current_tool := Some tool\<rparr>;
          s2 = s1\<lparr>probe_connected := (probe_connected s1)\<lparr>t99 := (tool_id tool = 99)\<rparr>\<rparr>
      in case on_probe_connected_toggle depth s2 of
           Inl e \<Rightarrow> Inl e
         | Inr s3 \<Rightarrow>
             (case on_tool_selected s3 of
                None \<Rightarrow> Inr s3
              | Some (Host k) \<Rightarrow> Inr (call_host (On_tool_selected k tool) s3)
              | Some Plugin_fn \<Rightarrow> onToolSelected depth tool s3))"

subsection \<open>M401 and M402\<close>

text \<open>The switch is on \<open>(uint16_t)gc_block->user_mcode\<close>.\<close>

definition mcode_number :: "parser_block \<Rightarrow> 16 word" where
  "mcode_number gc_block = word_of_int (user_mcode gc_block)"

fun mcode_execute :: "nat \<Rightarrow> nat \<Rightarrow> parser_block \<Rightarrow> machine \<Rightarrow> fault + machine" where
  "mcode_execute 0 state gc_block s = Inl Stack_exhausted"
| "mcode_execute (Suc depth) state gc_block s =
     (if state \<noteq> STATE_CHECK_MODE
      then (if mcode_number gc_block = 401
            then (if \<not> mcode (probe_connected s)
                  then Inr (delay_ms RELAY_DEBOUNCE
                         (enqueue_realtime_command CMD_PROBE_CONNECTED_TOGGLE
                            (s\<lparr>probe_connected := (probe_connected s)\<lparr>mcode := True\<rparr>\<rparr>)))
                  else Inr (report_message ''Probe connected signal already asserted!''
                         Message_Warning s))
            else if mcode_number gc_block = 402
            then (if mcode (probe_connected s)
                  then Inr (delay_ms RELAY_DEBOUNCE
                         (enqueue_realtime_command CMD_PROBE_CONNECTED_TOGGLE
                            (s\<lparr>probe_connected := (probe_connected s)\<lparr>mcode := False\<rparr>\<rparr>)))
                  else Inr (report_message ''Probe connected signal not asserted!''
                         Message_Warning s))
            else (case execute (user_mcode_ptrs s) of
                    None \<Rightarrow> Inr s
                  | Some (Host k) \<Rightarrow> Inr (call_host (User_mcode_execute k state gc_block) s)
                  | Some Plugin_fn \<Rightarrow> mcode_execute depth state gc_block s))
      else Inr s)"

subsection \<open>Reset\<close>

fun probe_reset :: "nat \<Rightarrow> machine \<Rightarrow> fault + machine" where
  "probe_reset 0 s = Inl Stack_exhausted"
| "probe_reset (Suc depth) s =
     (let s1 = s\<lparr>settings_invert_probe_pin := nvs_invert_probe_pin s\<rparr>;
          s2 = limits_enable (settings_hard_enabled s1) s1
      in case driver_reset s2 of
           None \<Rightarrow> Inl Null_call
         | Some (Host k) \<Rightarrow> Inr (call_host (Driver_reset k) s2)
         | Some Plugin_fn \<Rightarrow> probe_reset depth s2)"

subsection \<open>Settings\<close>

definition plugin_settings_save :: "machine \<Rightarrow> machine" where
  "plugin_settings_save s = memcpy_to_nvs s"

definition plugin_settings_restore :: "machine \<Rightarrow> machine" where
  "plugin_settings_restore s =
     (let s1 = s\<lparr>probe_protect_settings := (probe_protect_settings s)
                  \<lparr>protect_port :=
                     (if num_digital_out s \<noteq> 0 then num_digital_out s - 1 else 0)\<rparr>\<rparr>;
          s2 = s1\<lparr>probe_protect_settings := (probe_protect_settings s1)
                   \<lparr>tool_port :=
                      (if num_digital_out s1 \<noteq> 0 then num_digital_out s1 - 1 else 0)\<rparr>\<rparr>;
          s3 = s2\<lparr>probe_protect_settings := (probe_protect_settings s2)
                   \<lparr>flags := flags_zero\<rparr>\<rparr>
      in memcpy_to_nvs s3)"

text \<open>
  \<open>memcpy_from_nvs\<close> fails when nothing valid is stored (\<open>nvs_store\<close> is \<open>None\<close>).
  \<open>ioport_claim\<close> may renumber the port it is given; it is the host's, as is
  \<open>register_interrupt_handler\<close>, and both are taken as they answer.
\<close>

definition plugin_settings_load :: "machine \<Rightarrow> machine" where
  "plugin_settings_load s =
     (let s1 = (case nvs_store s of
                  Some stored \<Rightarrow> s\<lparr>probe_protect_settings := stored\<rparr>
                | None \<Rightarrow> plugin_settings_restore s);
          s2 = (if protect_port (probe_protect_settings s1) \<ge> n_ports s1
                then s1\<lparr>probe_protect_settings := (probe_protect_settings s1)
                          \<lparr>protect_port := n_ports s1 - 1\<rparr>\<rparr>
                else s1);
          s3 = (if tool_port (probe_protect_settings s2) \<ge> n_ports s2
                then s2\<lparr>probe_protect_settings := (probe_protect_settings s2)
                          \<lparr>tool_port := n_ports s2 - 2\<rparr>\<rparr>
                else s2);
          s4 = s3\<lparr>probe_connect_port := protect_port (probe_protect_settings s3)\<rparr>;
          s5 = s4\<lparr>nvs_invert_probe_pin := settings_invert_probe_pin s4\<rparr>;
          s6 = (if ext_pin (flags (probe_protect_settings s5))
                then (let p = probe_connect_port s5;
                          sa = emit (Ioport_claim p ''Probe Connected'') s5;
                          sb = (case ioport_claim sa p of
                                  Some p' \<Rightarrow> sa\<lparr>probe_connect_port := p',
                                                user_mcode_ptrs := hal_user_mcode sa\<rparr>
                                | None \<Rightarrow> protocol_enqueue_rt_command Warning_no_port sa);
                          sc = emit (Register_interrupt_handler (probe_connect_port sb)) sb
                      in if \<not> register_interrupt_handler sc (probe_connect_port sc)
                         then protocol_enqueue_rt_command Warning_no_port sc
                         else sc)
                else s5)
      in if tool_pin (flags (probe_protect_settings s6))
         then (let p = tool_probe_port s6;
                   sa = emit (Ioport_claim p ''Toolsetter G59.3'') s6
               in case ioport_claim sa p of
                    Some p' \<Rightarrow> sa\<lparr>tool_probe_port := p',
                                  user_mcode_ptrs := hal_user_mcode sa\<rparr>
                  | None \<Rightarrow> protocol_enqueue_rt_command Warning_no_port sa)
         else s6)"

subsection \<open>Initialisation\<close>

text \<open>
  Initialisation only stores the addresses of \<open>mcode_check\<close>, \<open>mcode_validate\<close> and
  \<open>report_options\<close>; these functions, and the two warning callbacks, change none of
  the statics and are not embedded.
  \<open>max_port\<close> holds the text \<open>uitoa(n_ports - 1)\<close>; it is kept as the number printed.
  \<open>nvs_alloc\<close> answers 0 when it fails. The first value of \<open>ok\<close> (whether \<open>n_ports\<close>
  is non-zero) is overwritten on every path before it is read, so only the later
  assignments appear.
\<close>

definition probe_protect_init :: "machine \<Rightarrow> machine" where
  "probe_protect_init s =
     (let s1 = s\<lparr>n_ports := ioports_available s\<rparr>;
          s2 = s1\<lparr>probe_connected := connected_zero\<rparr>;
          s3 = s2\<lparr>probe_connected_toggle := hal_probe_connected_toggle s2,
                  hal_probe_connected_toggle := Some ptr_on_probe_connected_toggle\<rparr>;
          s4 = s3\<lparr>on_probe_fixture := grbl_on_probe_fixture s3,
                  grbl_on_probe_fixture := Some ptr_probe_fixture\<rparr>;
          s5 = s4\<lparr>on_probe_completed := grbl_on_probe_completed s4,
                  grbl_on_probe_completed := Some ptr_probe_completed\<rparr>;
          s6 = s5\<lparr>on_probe_start := grbl_on_probe_start s5,
                  grbl_on_probe_start := Some ptr_probe_start\<rparr>;
          s7 = s6\<lparr>on_spindle_select := grbl_on_spindle_select s6,
                  grbl_on_spindle_select := Some ptr_onSpindleSelect\<rparr>;
          s8 = s7\<lparr>on_tool_selected := grbl_on_tool_selected s7,
                  grbl_on_tool_selected := Some ptr_onToolSelected\<rparr>;
          s9 = s8\<lparr>driver_reset := hal_driver_reset s8,
                  hal_driver_reset := Some ptr_probe_reset\<rparr>;
          s10 = s9\<lparr>hal_user_mcode := \<lparr>check = Some ptr_mcode_check,
                                         validate = Some ptr_mcode_validate,
                                         execute = Some ptr_mcode_execute\<rparr>\<rparr>;
          s11 = s10\<lparr>user_mcode_ptrs := hal_user_mcode s10\<rparr>;
          (ok, s12) =
            (if \<not> ioport_can_claim_explicit s11
             then (if num_digital_in s11 > 0
                   then (let sa = s11\<lparr>probe_connect_port := num_digital_in s11 - 1\<rparr>;
                             sb = (if set_pin_description sa
                                   then emit (Set_pin_description (probe_connect_port sa)
                                                ''Probe detect implicit'') sa
                                   else sa);
                             sc = sb\<lparr>driver_reset := hal_driver_reset sb,
                                     hal_driver_reset := Some ptr_probe_reset\<rparr>;
                             sd = sc\<lparr>on_report_options := grbl_on_report_options sc,
                                     grbl_on_report_options := Some ptr_report_options\<rparr>
                         in (True, sd))
                   else (False, s11))
             else (let sa = s11\<lparr>nvs_address := nvs_alloc s11\<rparr>
                   in if nvs_address sa \<noteq> 0
                      then (let sb = sa\<lparr>on_report_options := grbl_on_report_options sa,
                                        grbl_on_report_options := Some ptr_report_options\<rparr>;
                                sc = emit Settings_register sb;
                                sd = sc\<lparr>max_port := Some (ucast (n_ports sc) - 1)\<rparr>
                            in (True, sd))
                      else (False, sa)))
      in if \<not> ok then protocol_enqueue_rt_command Warning_msg s12 else s12)"

subsection \<open>A machine at power-on\<close>

text \<open>
  The statics as C initialises them (zero, except \<open>probe.connected\<close>), a host with
  handlers in the slots a driver fills, four digital inputs and eight outputs, and a
  probe that is connected and not triggered.
\<close>

definition power_on :: machine where
  "power_on = \<lparr>
     n_ports = 0, max_port = None,
     probe = \<lparr>triggered = False, connected = True\<rparr>,
     current_tool = None, probe_connect_port = 0, tool_probe_port = 0,
     nvs_invert_probe_pin = False, probe_connected = connected_zero,
     driver_reset = None,
     user_mcode_ptrs = \<lparr>check = None, validate = None, execute = None\<rparr>,
     nvs_address = 0, on_report_options = None, probe_connected_toggle = None,
     probe_protect_settings = \<lparr>protect_port = 0, tool_port = 0, flags = flags_zero\<rparr>,
     on_probe_start = None, on_probe_completed = None, on_probe_fixture = None,
     on_spindle_select = None, stepper_pulse_start = None, on_spindle_set_state = None,
     on_tool_selected = None, probe_get_state = None,
     hal_stepper_pulse_start = Some (Host 1), hal_probe_get_state = Host 2,
     hal_probe_connected_toggle = Some (Host 3), hal_driver_reset = Some (Host 4),
     hal_user_mcode = \<lparr>check = None, validate = None, execute = None\<rparr>,
     grbl_on_probe_fixture = None, grbl_on_probe_completed = None,
     grbl_on_probe_start = None, grbl_on_spindle_select = None,
     grbl_on_tool_selected = None, grbl_on_report_options = Some (Host 5),
     settings_invert_probe_pin = False, settings_hard_enabled = False,
     limits_enabled = False,
     hw_probe = \<lparr>triggered = False, connected = True\<rparr>,
     hw_input = (\<lambda>port. 0),
     num_digital_in = 4, num_digital_out = 8, ioports_available = 4,
     ioport_can_claim_explicit = True, ioport_claim = (\<lambda>port. Some port),
     register_interrupt_handler = (\<lambda>port. True), set_pin_description = True,
     nvs_alloc = 64, nvs_store = None, host_returns = (\<lambda>k. True),
     trace = []\<rparr>"

subsection \<open>Observations used in the properties\<close>

text \<open>The machine after \<open>probe_protect_init\<close> has run on the power-on state.\<close>

definition booted :: machine where
  "booted = probe_protect_init power_on"

text \<open>The events a call has added to the trace, when it returns.\<close>

definition new_events :: "machine \<Rightarrow> fault + machine \<Rightarrow> event list option" where
  "new_events s r =
     (case r of Inl e \<Rightarrow> None | Inr s' \<Rightarrow> Some (drop (length (trace s)) (trace s')))"

fun is_pulse :: "event \<Rightarrow> bool" where
  "is_pulse (Host_call (Pulse_start k stepper) v) = True"
| "is_pulse e = False"

definition pulses_forwarded :: "event list \<Rightarrow> nat" where
  "pulses_forwarded es = length (filter is_pulse es)"

text \<open>The probe sample that makes the pulse guard raise the alarm.\<close>

definition unsafe :: "machine \<Rightarrow> bool" where
  "unsafe s = (triggered (get_state s) \<or> \<not> connected (get_state s))"

text \<open>The guard armed once on the booted machine, and the probe triggered.\<close>

definition armed_triggered :: machine where
  "armed_triggered =
     (protection_on booted)\<lparr>hw_probe := \<lparr>triggered = True, connected = True\<rparr>\<rparr>"

text \<open>Sequences of arming and disarming calls.\<close>

datatype guard_op = Arm | Disarm

fun arm_disarm :: "guard_op list \<Rightarrow> machine \<Rightarrow> machine" where
  "arm_disarm [] s = s"
| "arm_disarm (Arm # ops) s = arm_disarm ops (protection_on s)"
| "arm_disarm (Disarm # ops) s = arm_disarm ops (protection_off s)"

text \<open>The three sources the specification names: external pin, M401, tool 99.\<close>

definition any_source :: "probe_connected_flags \<Rightarrow> bool" where
  "any_source c = (conn_ext_pin c \<or> mcode c \<or> t99 c)"

text \<open>
  The \<open>toggle\<close> bit and the reserved bits of \<open>probe_connected\<close> are cleared by
  \<open>probe_protect_init\<close> and written nowhere else in the file.
\<close>

definition unused_bits_clear :: "machine \<Rightarrow> bool" where
  "unused_bits_clear s =
     (\<not> toggle (probe_connected s) \<and> conn_reserved (probe_connected s) = 0)"

text \<open>
  The booted machine after the host has selected a spindle whose \<open>set_state\<close> is host
  function 6, and M401 has been executed.
\<close>

definition spindle_selected :: machine where
  "spindle_selected =
     snd (snd (projr (onSpindleSelect (Suc 0) \<lparr>set_state = Some (Host 6)\<rparr> booted)))"

definition spindle_probe_connected :: machine where
  "spindle_probe_connected =
     projr (mcode_execute (Suc 0) 0 \<lparr>user_mcode = 401\<rparr> spindle_selected)"

text \<open>A board with a single digital input, and settings stored for a larger one.\<close>

definition one_input_port :: machine where
  "one_input_port =
     probe_protect_init (power_on\<lparr>ioports_available := 1, num_digital_in := 1,
       nvs_store := Some \<lparr>protect_port = 3, tool_port = 3, flags = flags_zero\<rparr>\<rparr>)"

text \<open>A driver that cannot claim ports explicitly, after initialisation.\<close>

definition implicit_claim_driver :: machine where
  "implicit_claim_driver = probe_protect_init (power_on\<lparr>ioport_can_claim_explicit := False\<rparr>)"

text \<open>A state with its trace forgotten: two states that differ in the trace only are
  equal under it.\<close>

definition untraced :: "machine \<Rightarrow> machine" where
  "untraced s = s\<lparr>trace := []\<rparr>"

text \<open>
  The value \<open>on_probe_connected_toggle\<close> gives the external-pin flag: read from the pin
  (equal to 1, inverted if so configured) when the pin is enabled in the settings, and
  left as it was otherwise.
\<close>

definition ext_pin_reading :: "machine \<Rightarrow> bool" where
  "ext_pin_reading s =
     (if ext_pin (flags (probe_protect_settings s))
      then (if ext_pin_inv (flags (probe_protect_settings s))
            then wait_on_input (probe_connect_port s) s \<noteq> 1
            else wait_on_input (probe_connect_port s) s = 1)
      else conn_ext_pin (probe_connected s))"

text \<open>The state \<open>on_probe_connected_toggle\<close> leaves, but for the trace.\<close>

definition toggle_state :: "machine \<Rightarrow> machine" where
  "toggle_state s =
     (let s1 = s\<lparr>probe_connected := (probe_connected s)\<lparr>conn_ext_pin := ext_pin_reading s\<rparr>\<rparr>
      in if connected_value (probe_connected s1) then protection_on s1 else protection_off s1)"

text \<open>The interlock is armed: the live pulse handler is the guard.\<close>

definition guard_installed :: "machine \<Rightarrow> bool" where
  "guard_installed s = (hal_stepper_pulse_start s = Some ptr_on_pulse_start)"

text \<open>
  The guard has not been installed over itself: the saved handler is not the guard,
  and with no handler saved the live one is not the guard either.
\<close>

definition armed_at_most_once :: "machine \<Rightarrow> bool" where
  "armed_at_most_once s =
     (case stepper_pulse_start s of
        None \<Rightarrow> hal_stepper_pulse_start s \<noteq> Some ptr_on_pulse_start
      | Some h \<Rightarrow> h \<noteq> ptr_on_pulse_start)"

text \<open>
  The updates of the sources: the host processes a toggle request (it calls
  \<open>hal.probe.connected_toggle\<close>), M401 and M402 are executed in some machine state, a tool
  is selected, or the external pin changes and its interrupt handler runs.
\<close>

datatype source_update = Process_toggle | M401 nat | M402 nat | Select_tool tool_data
  | Pin_edge u8 int

fun update :: "nat \<Rightarrow> source_update \<Rightarrow> machine \<Rightarrow> fault + machine" where
  "update depth Process_toggle s = on_probe_connected_toggle depth s"
| "update depth (M401 state) s = mcode_execute depth state \<lparr>user_mcode = 401\<rparr> s"
| "update depth (M402 state) s = mcode_execute depth state \<lparr>user_mcode = 402\<rparr> s"
| "update depth (Select_tool tool) s = onToolSelected depth tool s"
| "update depth (Pin_edge port level) s =
     Inr (set_connected port (level = 1) (s\<lparr>hw_input := (hw_input s)(port := level)\<rparr>))"

fun run_updates :: "nat \<Rightarrow> source_update list \<Rightarrow> machine \<Rightarrow> fault + machine" where
  "run_updates depth [] s = Inr s"
| "run_updates depth (u # us) s =
     (case update depth u s of Inl e \<Rightarrow> Inl e | Inr s1 \<Rightarrow> run_updates depth us s1)"

text \<open>The updates that evaluate the sources again.\<close>

fun reevaluates :: "source_update \<Rightarrow> bool" where
  "reevaluates Process_toggle = True"
| "reevaluates (Select_tool tool) = True"
| "reevaluates u = False"

text \<open>An observation of the state a call returns.\<close>

definition outcome :: "(machine \<Rightarrow> 'a) \<Rightarrow> fault + machine \<Rightarrow> 'a option" where
  "outcome f r = (case r of Inl e \<Rightarrow> None | Inr s \<Rightarrow> Some (f s))"

text \<open>The saved toggle and tool handlers are the host's (or NULL), as initialisation
  leaves them.\<close>

definition delegates_of_host :: "machine \<Rightarrow> bool" where
  "delegates_of_host s =
     (probe_connected_toggle s \<noteq> Some ptr_on_probe_connected_toggle
      \<and> on_tool_selected s \<noteq> Some ptr_onToolSelected)"

text \<open>What holds after the sources have been evaluated again, from state \<open>s\<close> to \<open>s'\<close>.\<close>

definition guard_follows :: "machine \<Rightarrow> machine \<Rightarrow> bool" where
  "guard_follows s s' =
     ((any_source (probe_connected s') \<longrightarrow> guard_installed s')
      \<and> (\<not> any_source (probe_connected s') \<and> armed_at_most_once s \<longrightarrow> \<not> guard_installed s'))"

text \<open>
  The external pin is enabled in the settings and reads 1, and the toggle request of
  its edge has not been processed yet.
\<close>

definition pin_high_unprocessed :: machine where
  "pin_high_unprocessed =
     booted\<lparr>probe_protect_settings :=
              \<lparr>protect_port = 3, tool_port = 2, flags = flags_zero\<lparr>ext_pin := True\<rparr>\<rparr>,
            probe_connect_port := 3,
            hw_input := (\<lambda>port. if port = 3 then 1 else 0)\<rparr>"

text \<open>
  A fixture probe from begin to end, in the order the host runs the hooks: the
  fixture hook with a tool, the probe-start hook, and the probe-completed hook.
\<close>

definition fixture_probe_cycle ::
  "nat \<Rightarrow> tool_data \<Rightarrow> bool \<Rightarrow> bool \<Rightarrow> u8 \<Rightarrow> nat \<Rightarrow> nat \<Rightarrow> machine \<Rightarrow> fault + machine" where
  "fixture_probe_cycle depth tool at_g59_3 on axes target pl_data s =
     (case probe_fixture depth (Some tool) at_g59_3 on s of
        Inl e \<Rightarrow> Inl e
      | Inr (ok1, s1) \<Rightarrow>
          (case probe_start depth axes target pl_data s1 of
             Inl e \<Rightarrow> Inl e
           | Inr (ok2, s2) \<Rightarrow> probe_completed depth s2))"



text \<open>All four fixture flags set, and a probe-completed handler of the host saved.\<close>

definition fixture_ready :: machine where
  "fixture_ready =
     booted\<lparr>on_probe_completed := Some (Host 9),
            probe_protect_settings :=
              \<lparr>protect_port = 3, tool_port = 2,
                 flags = \<lparr>invert = True, hardlimits = True, ext_pin = False,
                   ext_pin_inv = False, tool_pin = True, tool_pin_inv = True,
                   flags_reserved = 0\<rparr>\<rparr>\<rparr>"

text \<open>
  A fixture probe has begun with the alternate tool-probe pin configured, and a
  machine reset has come before the probe completed: the redirected reader is still
  installed and the reader of the host still saved.
\<close>

definition begun_then_reset :: machine where
  "begun_then_reset =
     projr (probe_reset (Suc 0)
       (snd (projr (probe_fixture (Suc 0) (Some \<lparr>tool_id = 1\<rparr>) True True fixture_ready))))"

section \<open>Properties\<close>

subsection \<open>Arming and disarming (C10)\<close>

lemma arm_disarm_not_null:
  "hal_stepper_pulse_start s \<noteq> None \<Longrightarrow> hal_stepper_pulse_start (arm_disarm ops s) \<noteq> None"
proof (induction ops arbitrary: s)
  case Nil
  then show ?case by simp
next
  case (Cons op ops)
  show ?case
  proof (cases op)
    case Arm
    have "hal_stepper_pulse_start (protection_on s) \<noteq> None"
      by (simp add: protection_on_def)
    with Cons.IH Arm show ?thesis by simp
  next
    case Disarm
    have "hal_stepper_pulse_start (protection_off s) \<noteq> None"
      using Cons.prems by (auto simp: protection_off_def)
    with Cons.IH Disarm show ?thesis by simp
  qed
qed

text \<open>
  C10. \<open>protection_off\<close> is idempotent; with no handler saved it changes nothing;
  \<open>protection_on\<close> saves the handler that was installed, and a following
  \<open>protection_off\<close> puts exactly that handler back and clears the saved pointer,
  leaving everything else as it was; and no sequence of arming and disarming calls
  sets the installed pulse handler to NULL.
\<close>

theorem protection_off_idempotent_never_null:
  "protection_off (protection_off s) = protection_off s
   \<and> (stepper_pulse_start s = None \<longrightarrow> protection_off s = s)
   \<and> stepper_pulse_start (protection_on s) = hal_stepper_pulse_start s
   \<and> (hal_stepper_pulse_start s \<noteq> None \<longrightarrow>
        protection_off (protection_on s) = s\<lparr>stepper_pulse_start := None\<rparr>)
   \<and> (hal_stepper_pulse_start s \<noteq> None \<longrightarrow>
        hal_stepper_pulse_start (arm_disarm ops s) \<noteq> None)"
proof -
  have idem: "protection_off (protection_off s) = protection_off s"
    by (simp add: protection_off_def)
  have noop: "stepper_pulse_start s = None \<longrightarrow> protection_off s = s"
    by (simp add: protection_off_def)
  have saved: "stepper_pulse_start (protection_on s) = hal_stepper_pulse_start s"
    by (simp add: protection_on_def)
  have undo: "hal_stepper_pulse_start s \<noteq> None \<longrightarrow>
        protection_off (protection_on s) = s\<lparr>stepper_pulse_start := None\<rparr>"
    by (auto simp: protection_off_def protection_on_def)
  from idem noop saved undo arm_disarm_not_null show ?thesis by blast
qed

theorem protection_off_idempotent_never_null_witness:
  "protection_off (protection_off power_on) = protection_off power_on
   \<and> stepper_pulse_start power_on = None \<and> protection_off power_on = power_on
   \<and> hal_stepper_pulse_start power_on = Some (Host 1)
   \<and> protection_off (protection_on power_on) = power_on\<lparr>stepper_pulse_start := None\<rparr>
   \<and> hal_stepper_pulse_start (arm_disarm [Arm, Arm, Disarm, Disarm] power_on) \<noteq> None"
  using protection_off_idempotent_never_null [of power_on "[Arm, Arm, Disarm, Disarm]"]
  by (simp add: power_on_def)

subsection \<open>The pulse guard (C1)\<close>

text \<open>
  C1, as the claim states it, fails: with the guard armed and the probe triggered, the
  pulse still reaches the handler that was installed before.
\<close>

theorem on_pulse_start_still_forwards:
  "map_option pulses_forwarded
     (new_events armed_triggered (on_pulse_start (Suc 0) 7 armed_triggered)) = Some 1"
  by (simp add: armed_triggered_def booted_def probe_protect_init_def power_on_def Let_def
      protection_on_def new_events_def pulses_forwarded_def get_state_def call_host_def
      emit_def report_message_def enqueue_realtime_command_def connected_zero_def)

text \<open>
  C1, amended. While the guard stands over a handler of the host, a pulse request
  whose probe sample reads triggered or not connected enqueues exactly one reset
  command and reports one warning, and the pulse is then forwarded once, unchanged, to
  the handler installed before; any other request is forwarded unchanged and nothing
  is enqueued. Nothing else in the state changes, and the call returns at every depth
  bound of at least one.
\<close>

theorem on_pulse_start_alarm_and_forward:
  assumes "stepper_pulse_start s = Some (Host k)"
  shows "on_pulse_start (Suc depth) stepper s =
     Inr (s\<lparr>trace := trace s
            @ (if unsafe s
               then [Enqueue_realtime_command CMD_RESET,
                     Report_message ''PROBE PROTECTED!'' Message_Warning]
               else [])
            @ [Host_call (Pulse_start k stepper) (view s)]\<rparr>)"
  using assms
  by (simp add: unsafe_def Let_def call_host_def emit_def report_message_def
      enqueue_realtime_command_def view_def)

theorem on_pulse_start_alarm_and_forward_witness:
  "stepper_pulse_start armed_triggered = Some (Host 1)
   \<and> unsafe armed_triggered
   \<and> on_pulse_start (Suc 0) 7 armed_triggered =
       Inr (armed_triggered\<lparr>trace := trace armed_triggered
            @ [Enqueue_realtime_command CMD_RESET,
               Report_message ''PROBE PROTECTED!'' Message_Warning,
               Host_call (Pulse_start 1 7) (view armed_triggered)]\<rparr>)"
proof -
  have saved: "stepper_pulse_start armed_triggered = Some (Host 1)"
    by (simp add: armed_triggered_def booted_def probe_protect_init_def power_on_def Let_def
        protection_on_def emit_def)
  have alarm: "unsafe armed_triggered"
    by (simp add: unsafe_def get_state_def armed_triggered_def booted_def
        probe_protect_init_def power_on_def Let_def protection_on_def emit_def)
  from on_pulse_start_alarm_and_forward [OF saved, of 0 7] saved alarm
  show ?thesis by simp
qed

subsection \<open>The spindle guard (C2)\<close>

lemma connected_value_sources:
  "unused_bits_clear s \<Longrightarrow> connected_value (probe_connected s) = any_source (probe_connected s)"
  by (auto simp: unused_bits_clear_def connected_value_def any_source_def)

lemma init_unused_bits_clear: "unused_bits_clear (probe_protect_init s)"
  by (simp add: unused_bits_clear_def probe_protect_init_def Let_def connected_zero_def
      protocol_enqueue_rt_command_def emit_def split: prod.splits)

text \<open>The functions that are not sources leave \<open>probe_connected\<close> alone.\<close>

lemma on_pulse_start_keeps_sources:
  "on_pulse_start depth stepper s = Inr s' \<Longrightarrow> probe_connected s' = probe_connected s"
  by (induction depth arbitrary: s)
    (auto simp: Let_def report_message_def enqueue_realtime_command_def call_host_def emit_def
      split: option.splits handler.splits if_splits)

lemma probe_reset_keeps_sources:
  "probe_reset depth s = Inr s' \<Longrightarrow> probe_connected s' = probe_connected s"
  by (induction depth arbitrary: s)
    (auto simp: Let_def limits_enable_def call_host_def emit_def
      split: option.splits handler.splits)

lemma onSpindleSetState_keeps_sources:
  "onSpindleSetState depth state rpm s = Inr s' \<Longrightarrow> probe_connected s' = probe_connected s"
  by (induction depth arbitrary: s state)
    (auto simp: Let_def report_message_def enqueue_realtime_command_def call_host_def emit_def
      split: option.splits handler.splits if_splits)

lemma probe_start_keeps_sources:
  "probe_start depth axes target pl_data s = Inr (ok, s') \<Longrightarrow>
   probe_connected s' = probe_connected s"
  by (induction depth arbitrary: s)
    (auto simp: Let_def protection_off_def call_host_def emit_def
      split: option.splits handler.splits if_splits)

lemma probe_completed_keeps_sources:
  "probe_completed depth s = Inr s' \<Longrightarrow> probe_connected s' = probe_connected s"
  by (induction depth arbitrary: s)
    (auto simp: Let_def protection_on_def limits_enable_def call_host_def emit_def
      split: option.splits handler.splits if_splits)

text \<open>
  C2. With a spindle handler of the host saved, a spindle request made while a source
  flag is set and with a state other than zero passes state zero to that handler,
  after exactly one reset command and one warning; every other request is passed on
  as it came. Nothing else in the state changes. The bits of \<open>probe_connected\<close> that
  no function sets are taken to be clear, as they are from initialisation on.
\<close>

theorem onSpindleSetState_guard:
  assumes "on_spindle_set_state s = Some (Host k)" and "unused_bits_clear s"
  shows "onSpindleSetState (Suc depth) state rpm s =
     Inr (s\<lparr>trace := trace s
            @ (if any_source (probe_connected s) \<and> state \<noteq> 0
               then [Enqueue_realtime_command CMD_RESET,
                     Report_message ''PROBE IS IN SPINDLE!'' Message_Warning,
                     Host_call (Spindle_set_state k 0 rpm) (view s)]
               else [Host_call (Spindle_set_state k state rpm) (view s)])\<rparr>)"
  using assms
  by (simp add: connected_value_sources Let_def call_host_def emit_def report_message_def
      enqueue_realtime_command_def view_def)

theorem onSpindleSetState_guard_witness:
  "on_spindle_set_state spindle_probe_connected = Some (Host 6)
   \<and> unused_bits_clear spindle_probe_connected
   \<and> any_source (probe_connected spindle_probe_connected)
   \<and> new_events spindle_probe_connected
        (onSpindleSetState (Suc 0) 1 1000 spindle_probe_connected) =
       Some [Enqueue_realtime_command CMD_RESET,
             Report_message ''PROBE IS IN SPINDLE!'' Message_Warning,
             Host_call (Spindle_set_state 6 0 1000) (view spindle_probe_connected)]"
proof -
  have saved: "on_spindle_set_state spindle_probe_connected = Some (Host 6)"
    by (simp add: spindle_probe_connected_def spindle_selected_def booted_def
        probe_protect_init_def power_on_def Let_def emit_def mcode_number_def
        STATE_CHECK_MODE_def connected_zero_def delay_ms_def enqueue_realtime_command_def)
  have clear: "unused_bits_clear spindle_probe_connected"
    by (simp add: unused_bits_clear_def spindle_probe_connected_def spindle_selected_def
        booted_def probe_protect_init_def power_on_def Let_def emit_def mcode_number_def
        STATE_CHECK_MODE_def connected_zero_def delay_ms_def enqueue_realtime_command_def)
  have source: "any_source (probe_connected spindle_probe_connected)"
    by (simp add: any_source_def spindle_probe_connected_def spindle_selected_def
        booted_def probe_protect_init_def power_on_def Let_def emit_def mcode_number_def
        STATE_CHECK_MODE_def connected_zero_def delay_ms_def enqueue_realtime_command_def)
  from onSpindleSetState_guard [OF saved clear, of 0 1 1000] saved clear source
  show ?thesis by (simp add: new_events_def)
qed

subsection \<open>M401 and M402 (C5)\<close>

text \<open>
  C5, as the claim states it, fails: in check mode M401 neither sets the flag nor
  reports anything.
\<close>

theorem mcode_execute_check_mode_no_effect:
  "mcode_number \<lparr>user_mcode = 401\<rparr> = 401
   \<and> \<not> mcode (probe_connected booted)
   \<and> mcode_execute (Suc 0) STATE_CHECK_MODE \<lparr>user_mcode = 401\<rparr> booted = Inr booted"
  by (simp add: mcode_number_def booted_def probe_protect_init_def power_on_def Let_def
      connected_zero_def emit_def)

text \<open>
  C5, amended. Outside check mode, M401 with the command flag already set reports a
  warning and does nothing else; otherwise it sets the flag, enqueues one toggle
  request and waits the settle delay. M402 does the same with the flag cleared and
  the warning that the signal is not asserted. In check mode neither has any effect.
\<close>

theorem mcode_execute_connect_disconnect:
  "(state \<noteq> STATE_CHECK_MODE \<and> mcode_number gc_block = 401 \<longrightarrow>
      mcode_execute (Suc depth) state gc_block s =
        Inr (if mcode (probe_connected s)
             then s\<lparr>trace := trace s
                    @ [Report_message ''Probe connected signal already asserted!''
                         Message_Warning]\<rparr>
             else s\<lparr>probe_connected := (probe_connected s)\<lparr>mcode := True\<rparr>,
                    trace := trace s
                    @ [Enqueue_realtime_command CMD_PROBE_CONNECTED_TOGGLE,
                       Delay_ms RELAY_DEBOUNCE]\<rparr>))
   \<and> (state \<noteq> STATE_CHECK_MODE \<and> mcode_number gc_block = 402 \<longrightarrow>
      mcode_execute (Suc depth) state gc_block s =
        Inr (if \<not> mcode (probe_connected s)
             then s\<lparr>trace := trace s
                    @ [Report_message ''Probe connected signal not asserted!''
                         Message_Warning]\<rparr>
             else s\<lparr>probe_connected := (probe_connected s)\<lparr>mcode := False\<rparr>,
                    trace := trace s
                    @ [Enqueue_realtime_command CMD_PROBE_CONNECTED_TOGGLE,
                       Delay_ms RELAY_DEBOUNCE]\<rparr>))
   \<and> mcode_execute (Suc depth) STATE_CHECK_MODE gc_block s = Inr s"
  by (simp add: delay_ms_def enqueue_realtime_command_def report_message_def emit_def)

theorem mcode_execute_connect_disconnect_witness:
  "mcode_number \<lparr>user_mcode = 401\<rparr> = 401 \<and> (0::nat) \<noteq> STATE_CHECK_MODE
   \<and> \<not> mcode (probe_connected booted)
   \<and> mcode_execute (Suc 0) 0 \<lparr>user_mcode = 401\<rparr> booted =
       Inr (booted\<lparr>probe_connected := (probe_connected booted)\<lparr>mcode := True\<rparr>,
              trace := trace booted
                @ [Enqueue_realtime_command CMD_PROBE_CONNECTED_TOGGLE,
                   Delay_ms RELAY_DEBOUNCE]\<rparr>)"
proof -
  have code: "mcode_number \<lparr>user_mcode = 401\<rparr> = 401"
    by (simp add: mcode_number_def)
  have running: "(0::nat) \<noteq> STATE_CHECK_MODE"
    by (simp add: STATE_CHECK_MODE_def)
  have unset: "\<not> mcode (probe_connected booted)"
    by (simp add: booted_def probe_protect_init_def power_on_def Let_def connected_zero_def
        emit_def)
  from mcode_execute_connect_disconnect [of 0 "\<lparr>user_mcode = 401\<rparr>" 0 booted]
    code running unset
  show ?thesis by simp
qed

subsection \<open>Loading and restoring the settings (C4, C9)\<close>

text \<open>
  What the sanity check of \<open>plugin_settings_load\<close> achieves: the connect port is below
  \<open>n_ports\<close> when there is a port at all, the tool port when there are two.
\<close>

lemma word8_pred_less: "(n::8 word) \<noteq> 0 \<Longrightarrow> n - 1 < n"
  by (simp add: word_less_nat_alt unat_minus_one unat_gt_0)

lemma word8_pred2_less: "(2::8 word) \<le> n \<Longrightarrow> n - 2 < n"
  by unat_arith

lemma plugin_settings_load_ports:
  "n_ports (plugin_settings_load s) = n_ports s"
  "n_ports s \<noteq> 0 \<Longrightarrow>
     protect_port (probe_protect_settings (plugin_settings_load s)) < n_ports s"
  "2 \<le> n_ports s \<Longrightarrow>
     tool_port (probe_protect_settings (plugin_settings_load s)) < n_ports s"
proof -
  define s1 where "s1 = (case nvs_store s of
                  Some stored \<Rightarrow> s\<lparr>probe_protect_settings := stored\<rparr>
                | None \<Rightarrow> plugin_settings_restore s)"
  define s2 where "s2 = (if protect_port (probe_protect_settings s1) \<ge> n_ports s1
                then s1\<lparr>probe_protect_settings := (probe_protect_settings s1)
                          \<lparr>protect_port := n_ports s1 - 1\<rparr>\<rparr>
                else s1)"
  define s3 where "s3 = (if tool_port (probe_protect_settings s2) \<ge> n_ports s2
                then s2\<lparr>probe_protect_settings := (probe_protect_settings s2)
                          \<lparr>tool_port := n_ports s2 - 2\<rparr>\<rparr>
                else s2)"
  define s4 where "s4 = s3\<lparr>probe_connect_port := protect_port (probe_protect_settings s3)\<rparr>"
  define s5 where "s5 = s4\<lparr>nvs_invert_probe_pin := settings_invert_probe_pin s4\<rparr>"
  define s6 where "s6 = (if ext_pin (flags (probe_protect_settings s5))
                then (let p = probe_connect_port s5;
                          sa = emit (Ioport_claim p ''Probe Connected'') s5;
                          sb = (case ioport_claim sa p of
                                  Some p' \<Rightarrow> sa\<lparr>probe_connect_port := p',
                                                user_mcode_ptrs := hal_user_mcode sa\<rparr>
                                | None \<Rightarrow> protocol_enqueue_rt_command Warning_no_port sa);
                          sc = emit (Register_interrupt_handler (probe_connect_port sb)) sb
                      in if \<not> register_interrupt_handler sc (probe_connect_port sc)
                         then protocol_enqueue_rt_command Warning_no_port sc
                         else sc)
                else s5)"
  have body: "plugin_settings_load s =
      (if tool_pin (flags (probe_protect_settings s6))
         then (let p = tool_probe_port s6;
                   sa = emit (Ioport_claim p ''Toolsetter G59.3'') s6
               in case ioport_claim sa p of
                    Some p' \<Rightarrow> sa\<lparr>tool_probe_port := p',
                                  user_mcode_ptrs := hal_user_mcode sa\<rparr>
                  | None \<Rightarrow> protocol_enqueue_rt_command Warning_no_port sa)
         else s6)"
    by (simp only: plugin_settings_load_def Let_def s1_def s2_def s3_def s4_def s5_def s6_def)
  have t: "probe_protect_settings (plugin_settings_load s) = probe_protect_settings s6"
    "n_ports (plugin_settings_load s) = n_ports s6"
    by (simp_all add: body Let_def emit_def protocol_enqueue_rt_command_def
        split: option.splits)
  have f6: "probe_protect_settings s6 = probe_protect_settings s5" "n_ports s6 = n_ports s5"
    by (simp_all add: s6_def Let_def emit_def protocol_enqueue_rt_command_def
        split: option.splits)
  have f5: "probe_protect_settings s5 = probe_protect_settings s3" "n_ports s5 = n_ports s3"
    by (simp_all add: s5_def s4_def)
  have n1: "n_ports s1 = n_ports s"
    by (simp add: s1_def plugin_settings_restore_def memcpy_to_nvs_def emit_def Let_def
        split: option.splits)
  have n2: "n_ports s2 = n_ports s" by (simp add: s2_def n1)
  have n3: "n_ports s3 = n_ports s" by (simp add: s3_def n2)
  show "n_ports (plugin_settings_load s) = n_ports s"
    by (simp add: t f6 f5 n3)
  have p2: "n_ports s \<noteq> 0 \<Longrightarrow> protect_port (probe_protect_settings s2) < n_ports s"
    using word8_pred_less [of "n_ports s"] by (auto simp: s2_def n1 not_le)
  have p3: "protect_port (probe_protect_settings s3) = protect_port (probe_protect_settings s2)"
    by (simp add: s3_def)
  show "n_ports s \<noteq> 0 \<Longrightarrow>
     protect_port (probe_protect_settings (plugin_settings_load s)) < n_ports s"
    using p2 by (simp add: t f6 f5 p3)
  have t3: "2 \<le> n_ports s \<Longrightarrow> tool_port (probe_protect_settings s3) < n_ports s"
    using word8_pred2_less [of "n_ports s"] by (auto simp: s3_def n2 not_le)
  show "2 \<le> n_ports s \<Longrightarrow>
     tool_port (probe_protect_settings (plugin_settings_load s)) < n_ports s"
    using t3 by (simp add: t f6 f5)
qed

text \<open>
  C4 at a failing input: one digital input (\<open>n_ports = 1\<close>) and a stored tool port of
  3. The load replaces the tool port by \<open>n_ports - 2\<close>, which is 255 in eight bits,
  and not below \<open>n_ports\<close>.
\<close>

theorem plugin_settings_load_tool_port_wraps:
  "n_ports (plugin_settings_load one_input_port) = 1
   \<and> tool_port (probe_protect_settings (plugin_settings_load one_input_port)) = 255
   \<and> protect_port (probe_protect_settings (plugin_settings_load one_input_port)) = 0"
  by (simp add: one_input_port_def plugin_settings_load_def probe_protect_init_def
      power_on_def Let_def emit_def flags_zero_def)

text \<open>
  C9 at a failing input: four digital inputs and eight digital outputs. The restore
  takes both port numbers from the number of outputs, so both become 7, above the
  highest input port, 3.
\<close>

theorem plugin_settings_restore_uses_outputs:
  "num_digital_in booted = 4 \<and> n_ports booted = 4 \<and> num_digital_out booted = 8
   \<and> protect_port (probe_protect_settings (plugin_settings_restore booted)) = 7
   \<and> tool_port (probe_protect_settings (plugin_settings_restore booted)) = 7"
  by (simp add: booted_def plugin_settings_restore_def probe_protect_init_def power_on_def
      Let_def emit_def memcpy_to_nvs_def)

lemma plugin_settings_restore_eq:
  "plugin_settings_restore s =
     (let p = (if num_digital_out s \<noteq> 0 then num_digital_out s - 1 else 0);
          d = \<lparr>protect_port = p, tool_port = p, flags = flags_zero\<rparr>
      in s\<lparr>probe_protect_settings := d, nvs_store := Some d,
            trace := trace s @ [Memcpy_to_nvs d]\<rparr>)"
  by (simp add: plugin_settings_restore_def Let_def memcpy_to_nvs_def emit_def)

subsection \<open>Reset (C8)\<close>

lemma probe_reset_self:
  "driver_reset s = Some ptr_probe_reset \<Longrightarrow> probe_reset depth s = Inl Stack_exhausted"
  by (induction depth arbitrary: s) (simp_all add: Let_def limits_enable_def emit_def)

lemma probe_reset_host:
  "driver_reset s = Some (Host k) \<Longrightarrow>
   probe_reset (Suc depth) s =
     Inr (s\<lparr>settings_invert_probe_pin := nvs_invert_probe_pin s,
            limits_enabled := settings_hard_enabled s,
            trace := trace s
              @ [Limits_enable (settings_hard_enabled s),
                 Host_call (Driver_reset k)
                   \<lparr>v_pulse_start = hal_stepper_pulse_start s,
                      v_get_state = hal_probe_get_state s,
                      v_invert_probe_pin = nvs_invert_probe_pin s,
                      v_limits_enabled = settings_hard_enabled s\<rparr>]\<rparr>)"
  by (simp add: Let_def limits_enable_def emit_def call_host_def view_def)

text \<open>
  C8 at a failing input: a driver without explicit port claiming. Initialisation
  saves \<open>hal.driver_reset\<close> a second time, after it has stored \<open>probe_reset\<close> there, so
  the saved reset handler is \<open>probe_reset\<close> itself: a reset calls itself at every
  depth and the reset handler of the host is never reached.
\<close>

theorem probe_reset_recurses_after_implicit_init:
  "driver_reset implicit_claim_driver = Some ptr_probe_reset
   \<and> probe_reset depth implicit_claim_driver = Inl Stack_exhausted"
proof -
  have self: "driver_reset implicit_claim_driver = Some ptr_probe_reset"
    by (simp add: implicit_claim_driver_def probe_protect_init_def power_on_def Let_def
        emit_def)
  from self probe_reset_self [OF self] show ?thesis by simp
qed

subsection \<open>Evaluating the sources (helpers for C3 and C6)\<close>

lemma untraced_emit [simp]: "untraced (emit e s) = untraced s"
  by (simp add: untraced_def emit_def)

lemma untraced_call_host [simp]: "untraced (call_host c s) = untraced s"
  by (simp add: call_host_def)

lemma untraced_report [simp]: "untraced (report_message m t s) = untraced s"
  by (simp add: report_message_def)

lemma untraced_protection_on: "untraced (protection_on s) = untraced (protection_on (untraced s))"
  by (simp add: untraced_def protection_on_def)

lemma untraced_protection_off: "untraced (protection_off s) = untraced (protection_off (untraced s))"
  by (simp add: untraced_def protection_off_def)

lemma untraced_probe_connected [simp]: "probe_connected (untraced s) = probe_connected s"
  by (simp add: untraced_def)

lemma untraced_probe_connected_toggle [simp]:
  "probe_connected_toggle (untraced s) = probe_connected_toggle s"
  by (simp add: untraced_def)

lemma untraced_on_tool_selected [simp]:
  "on_tool_selected (untraced s) = on_tool_selected s"
  by (simp add: untraced_def)

lemma untraced_hal_stepper_pulse_start [simp]:
  "hal_stepper_pulse_start (untraced s) = hal_stepper_pulse_start s"
  by (simp add: untraced_def)

lemma untraced_stepper_pulse_start [simp]:
  "stepper_pulse_start (untraced s) = stepper_pulse_start s"
  by (simp add: untraced_def)

lemma untraced_current_tool [simp]:
  "current_tool (untraced s) = current_tool s"
  by (simp add: untraced_def)

lemma untraced_eq_fields:
  assumes "untraced a = untraced b"
  shows "probe_connected a = probe_connected b"
    and "probe_connected_toggle a = probe_connected_toggle b"
    and "on_tool_selected a = on_tool_selected b"
    and "hal_stepper_pulse_start a = hal_stepper_pulse_start b"
    and "stepper_pulse_start a = stepper_pulse_start b"
    and "current_tool a = current_tool b"
  using arg_cong [OF assms, of probe_connected]
    arg_cong [OF assms, of probe_connected_toggle]
    arg_cong [OF assms, of on_tool_selected]
    arg_cong [OF assms, of hal_stepper_pulse_start]
    arg_cong [OF assms, of stepper_pulse_start]
    arg_cong [OF assms, of current_tool]
  by simp_all

lemma booted_facts:
  "probe_connected_toggle booted = Some (Host 3)"
  "on_tool_selected booted = None"
  "probe_connected booted = connected_zero"
  "hal_stepper_pulse_start booted = Some (Host 1)"
  "stepper_pulse_start booted = None"
  "hal_probe_get_state booted = Host 2"
  "hw_probe booted = \<lparr>triggered = False, connected = True\<rparr>"
  "trace booted = [Settings_register]"
  "probe_protect_settings booted = \<lparr>protect_port = 0, tool_port = 0, flags = flags_zero\<rparr>"
  by (simp_all add: booted_def probe_protect_init_def power_on_def Let_def emit_def)

lemma toggle_untraced:
  assumes "probe_connected_toggle s \<noteq> Some ptr_on_probe_connected_toggle"
  shows "map_sum id untraced (on_probe_connected_toggle (Suc depth) s)
         = Inr (untraced (toggle_state s))"
proof -
  define s1 where "s1 = (if ext_pin (flags (probe_protect_settings s))
                then (let val = wait_on_input (probe_connect_port s) s;
                          pin = (val = 1);
                          pin' = (if ext_pin_inv (flags (probe_protect_settings s))
                                  then \<not> pin else pin)
                      in s\<lparr>probe_connected := (probe_connected s)\<lparr>conn_ext_pin := pin'\<rparr>\<rparr>)
                else s)"
  define s2 where "s2 = (if conn_ext_pin (probe_connected s1)
                then report_message ''External Probe connected!'' Message_Info s1 else s1)"
  define s3 where "s3 = (if t99 (probe_connected s2)
                then report_message ''T99 Probe connected!'' Message_Info s2 else s2)"
  define s4 where "s4 = (if mcode (probe_connected s3)
                then report_message ''Mcode Probe connected!'' Message_Info s3 else s3)"
  define s5 where "s5 = (if toggle (probe_connected s4)
                then report_message ''Probe connect toggled on'' Message_Info s4 else s4)"
  define s6 where "s6 = (if connected_value (probe_connected s5)
                then protection_on s5
                else report_message ''Probe disconnected, protection off.'' Message_Info
                       (protection_off s5))"
  have body: "on_probe_connected_toggle (Suc depth) s =
      (if \<not> connected (get_state s6)
         then (case probe_connected_toggle s6 of
                 None \<Rightarrow> Inr s6
               | Some (Host k) \<Rightarrow> Inr (call_host (Probe_connected_toggle k) s6)
               | Some Plugin_fn \<Rightarrow> on_probe_connected_toggle depth s6)
         else Inr s6)"
    by (simp only: on_probe_connected_toggle.simps Let_def s1_def s2_def s3_def s4_def s5_def
        s6_def)
  have e1: "s1 = s\<lparr>probe_connected := (probe_connected s)\<lparr>conn_ext_pin := ext_pin_reading s\<rparr>\<rparr>"
    by (simp add: s1_def ext_pin_reading_def Let_def)
  have u2: "untraced s2 = untraced s1" by (simp add: s2_def)
  have u3: "untraced s3 = untraced s1" by (simp add: s3_def u2)
  have u4: "untraced s4 = untraced s1" by (simp add: s4_def u3)
  have u5: "untraced s5 = untraced s1" by (simp add: s5_def u4)
  have c5: "probe_connected s5 = probe_connected s1"
    using arg_cong [OF u5, of probe_connected] by simp
  have u6: "untraced s6 = untraced (toggle_state s)"
  proof (cases "connected_value (probe_connected s1)")
    case True
    then have "untraced s6 = untraced (protection_on (untraced s5))"
      using untraced_protection_on [of s5] by (simp add: s6_def c5)
    also have "\<dots> = untraced (protection_on s1)"
      using untraced_protection_on [of s1] by (simp add: u5)
    finally show ?thesis using True by (simp add: toggle_state_def Let_def e1)
  next
    case False
    then have "untraced s6 = untraced (protection_off (untraced s5))"
      using untraced_protection_off [of s5] by (simp add: s6_def c5)
    also have "\<dots> = untraced (protection_off s1)"
      using untraced_protection_off [of s1] by (simp add: u5)
    finally show ?thesis using False by (simp add: toggle_state_def Let_def e1)
  qed
  have "probe_connected_toggle (toggle_state s) = probe_connected_toggle s"
    by (simp add: toggle_state_def Let_def protection_on_def protection_off_def)
  then have d6: "probe_connected_toggle s6 = probe_connected_toggle s"
    using arg_cong [OF u6, of probe_connected_toggle] by simp
  show ?thesis
    unfolding body using assms u6 d6 by (simp split: option.splits handler.splits)
qed

lemma toggle_returns:
  assumes "probe_connected_toggle s \<noteq> Some ptr_on_probe_connected_toggle"
  shows "\<exists>s'. on_probe_connected_toggle (Suc depth) s = Inr s'
            \<and> untraced s' = untraced (toggle_state s)"
  using toggle_untraced [OF assms, of depth]
  by (cases "on_probe_connected_toggle (Suc depth) s") simp_all

lemma tool_returns:
  assumes "probe_connected_toggle s \<noteq> Some ptr_on_probe_connected_toggle"
    and "on_tool_selected s \<noteq> Some ptr_onToolSelected"
  shows "\<exists>s'. onToolSelected (Suc (Suc depth)) tool s = Inr s'
            \<and> untraced s' = untraced (toggle_state
                 (s\<lparr>current_tool := Some tool,
                    probe_connected := (probe_connected s)\<lparr>t99 := (tool_id tool = 99)\<rparr>\<rparr>))"
proof -
  define s2 where "s2 = s\<lparr>current_tool := Some tool,
                    probe_connected := (probe_connected s)\<lparr>t99 := (tool_id tool = 99)\<rparr>\<rparr>"
  have "probe_connected_toggle s2 \<noteq> Some ptr_on_probe_connected_toggle"
    using assms(1) by (simp add: s2_def)
  from toggle_returns [OF this, of depth] obtain s3 where
    r: "on_probe_connected_toggle (Suc depth) s2 = Inr s3"
    and u: "untraced s3 = untraced (toggle_state s2)" by blast
  have "on_tool_selected (toggle_state s2) = on_tool_selected s"
    by (simp add: toggle_state_def Let_def protection_on_def protection_off_def s2_def)
  then have d: "on_tool_selected s3 = on_tool_selected s"
    using arg_cong [OF u, of on_tool_selected] by simp
  have body: "onToolSelected (Suc (Suc depth)) tool s =
     (case on_probe_connected_toggle (Suc depth) s2 of
           Inl e \<Rightarrow> Inl e
         | Inr s3 \<Rightarrow>
             (case on_tool_selected s3 of
                None \<Rightarrow> Inr s3
              | Some (Host k) \<Rightarrow> Inr (call_host (On_tool_selected k tool) s3)
              | Some Plugin_fn \<Rightarrow> onToolSelected (Suc depth) tool s3))"
    by (simp only: onToolSelected.simps Let_def s2_def) simp
  show ?thesis
    unfolding body s2_def [symmetric] using r u d assms(2)
    by (simp split: option.splits handler.splits)
qed

lemma toggle_state_fields:
  "probe_connected (toggle_state s) = (probe_connected s)\<lparr>conn_ext_pin := ext_pin_reading s\<rparr>"
  "probe_connected_toggle (toggle_state s) = probe_connected_toggle s"
  "on_tool_selected (toggle_state s) = on_tool_selected s"
  "current_tool (toggle_state s) = current_tool s"
  by (simp_all add: toggle_state_def Let_def protection_on_def protection_off_def)

lemma toggle_state_guard:
  "hal_stepper_pulse_start (toggle_state s) =
     (if connected_value ((probe_connected s)\<lparr>conn_ext_pin := ext_pin_reading s\<rparr>)
      then Some ptr_on_pulse_start
      else (case stepper_pulse_start s of
              None \<Rightarrow> hal_stepper_pulse_start s
            | Some h \<Rightarrow> Some h))"
  by (auto simp: toggle_state_def Let_def protection_on_def protection_off_def)

lemma toggle_state_follows:
  assumes "unused_bits_clear s" and "untraced s' = untraced (toggle_state s)"
  shows "guard_follows s s'" and "unused_bits_clear s'"
proof -
  have pc: "probe_connected s' = (probe_connected s)\<lparr>conn_ext_pin := ext_pin_reading s\<rparr>"
    using untraced_eq_fields(1) [OF assms(2)] by (simp add: toggle_state_fields)
  have hal: "hal_stepper_pulse_start s' = hal_stepper_pulse_start (toggle_state s)"
    using untraced_eq_fields(4) [OF assms(2)] .
  show clear: "unused_bits_clear s'"
    using assms(1) by (simp add: unused_bits_clear_def pc)
  have cv: "connected_value (probe_connected s') = any_source (probe_connected s')"
    using clear by (rule connected_value_sources)
  show "guard_follows s s'"
    using cv
    by (auto simp: guard_follows_def guard_installed_def hal toggle_state_guard pc [symmetric]
        armed_at_most_once_def split: option.splits)
qed

lemma mcode_number_401: "mcode_number \<lparr>user_mcode = 401\<rparr> = 401"
  by (simp add: mcode_number_def)

lemma mcode_number_402: "mcode_number \<lparr>user_mcode = 402\<rparr> = 402"
  by (simp add: mcode_number_def)

lemma mcode_execute_cases:
  "(state \<noteq> STATE_CHECK_MODE \<and> mcode_number gc_block = 401 \<longrightarrow>
      mcode_execute (Suc depth) state gc_block s =
        Inr (if mcode (probe_connected s)
             then report_message ''Probe connected signal already asserted!''
                    Message_Warning s
             else delay_ms RELAY_DEBOUNCE
                    (enqueue_realtime_command CMD_PROBE_CONNECTED_TOGGLE
                       (s\<lparr>probe_connected := (probe_connected s)\<lparr>mcode := True\<rparr>\<rparr>))))
   \<and> (state \<noteq> STATE_CHECK_MODE \<and> mcode_number gc_block = 402 \<longrightarrow>
      mcode_execute (Suc depth) state gc_block s =
        Inr (if \<not> mcode (probe_connected s)
             then report_message ''Probe connected signal not asserted!''
                    Message_Warning s
             else delay_ms RELAY_DEBOUNCE
                    (enqueue_realtime_command CMD_PROBE_CONNECTED_TOGGLE
                       (s\<lparr>probe_connected := (probe_connected s)\<lparr>mcode := False\<rparr>\<rparr>))))
   \<and> mcode_execute (Suc depth) STATE_CHECK_MODE gc_block s = Inr s"
  by simp

lemma update_step:
  assumes "delegates_of_host s" and "unused_bits_clear s"
  shows "\<exists>s'. update (Suc (Suc depth)) u s = Inr s'
           \<and> delegates_of_host s' \<and> unused_bits_clear s'
           \<and> (if reevaluates u then guard_follows s s'
               else hal_stepper_pulse_start s' = hal_stepper_pulse_start s)"
proof (cases u)
  case Process_toggle
  from assms(1) have "probe_connected_toggle s \<noteq> Some ptr_on_probe_connected_toggle"
    by (simp add: delegates_of_host_def)
  from toggle_returns [OF this, of "Suc depth"] obtain s' where
    r: "on_probe_connected_toggle (Suc (Suc depth)) s = Inr s'"
    and u: "untraced s' = untraced (toggle_state s)" by blast
  have "delegates_of_host s'"
    using assms(1) untraced_eq_fields(2,3) [OF u]
    by (simp add: delegates_of_host_def toggle_state_fields)
  with r toggle_state_follows [OF assms(2) u] Process_toggle show ?thesis by simp
next
  case (M401 state)
  show ?thesis
    using assms mcode_execute_cases [of state "\<lparr>user_mcode = 401\<rparr>" "Suc depth" s]
    by (cases "state = STATE_CHECK_MODE")
      (auto simp: M401 mcode_number_401 delegates_of_host_def unused_bits_clear_def
        delay_ms_def enqueue_realtime_command_def report_message_def emit_def)
next
  case (M402 state)
  show ?thesis
    using assms mcode_execute_cases [of state "\<lparr>user_mcode = 402\<rparr>" "Suc depth" s]
    by (cases "state = STATE_CHECK_MODE")
      (auto simp: M402 mcode_number_402 delegates_of_host_def unused_bits_clear_def
        delay_ms_def enqueue_realtime_command_def report_message_def emit_def)
next
  case (Select_tool tool)
  define s2 where "s2 = s\<lparr>current_tool := Some tool,
                    probe_connected := (probe_connected s)\<lparr>t99 := (tool_id tool = 99)\<rparr>\<rparr>"
  from assms(1) have d: "probe_connected_toggle s \<noteq> Some ptr_on_probe_connected_toggle"
    "on_tool_selected s \<noteq> Some ptr_onToolSelected"
    by (simp_all add: delegates_of_host_def)
  from tool_returns [OF d, of depth tool] obtain s' where
    r: "onToolSelected (Suc (Suc depth)) tool s = Inr s'"
    and u: "untraced s' = untraced (toggle_state s2)" by (auto simp: s2_def)
  have c2: "unused_bits_clear s2" using assms(2) by (simp add: unused_bits_clear_def s2_def)
  have "delegates_of_host s'"
    using assms(1) untraced_eq_fields(2,3) [OF u]
    by (simp add: delegates_of_host_def toggle_state_fields s2_def)
  moreover have "armed_at_most_once s2 = armed_at_most_once s"
    by (simp add: armed_at_most_once_def s2_def split: option.splits)
  then have "guard_follows s s'"
    using toggle_state_follows(1) [OF c2 u] by (simp add: guard_follows_def)
  ultimately show ?thesis
    using r toggle_state_follows(2) [OF c2 u] Select_tool by simp
next
  case (Pin_edge port level)
  show ?thesis
    using assms
    by (simp add: Pin_edge set_connected_def enqueue_realtime_command_def emit_def
        delegates_of_host_def unused_bits_clear_def)
qed

lemma run_updates_total:
  assumes "delegates_of_host s" and "unused_bits_clear s"
  shows "\<exists>s'. run_updates (Suc (Suc depth)) us s = Inr s'
           \<and> delegates_of_host s' \<and> unused_bits_clear s'"
  using assms
proof (induction us arbitrary: s)
  case Nil
  then show ?case by simp
next
  case (Cons u us)
  from update_step [OF Cons.prems, of depth u] obtain s1 where
    "update (Suc (Suc depth)) u s = Inr s1" "delegates_of_host s1" "unused_bits_clear s1"
    by blast
  with Cons.IH [of s1] show ?case by simp
qed

lemma run_updates_append:
  "run_updates depth (us @ vs) s =
     (case run_updates depth us s of Inl e \<Rightarrow> Inl e | Inr s1 \<Rightarrow> run_updates depth vs s1)"
  by (induction us arbitrary: s) (simp_all split: sum.splits)

subsection \<open>Armed exactly when a source is set (C3)\<close>

text \<open>
  C3, as the claim states it, fails: after M401 on the booted machine the command
  flag is set and the guard is not installed; the command only enqueues the toggle
  request that will install it.
\<close>

theorem mcode_execute_sets_flag_without_guard:
  "outcome probe_connected (mcode_execute (Suc 0) 0 \<lparr>user_mcode = 401\<rparr> booted) =
     Some (connected_zero\<lparr>mcode := True\<rparr>)
   \<and> outcome guard_installed (mcode_execute (Suc 0) 0 \<lparr>user_mcode = 401\<rparr> booted) =
     Some False"
  by (simp add: outcome_def guard_installed_def booted_facts mcode_number_def
      STATE_CHECK_MODE_def delay_ms_def enqueue_realtime_command_def emit_def
      connected_zero_def)

text \<open>
  C3, amended. From a state as initialisation leaves it (handlers of the host saved,
  unused bits clear), every sequence of source updates returns, and after a further
  update that evaluates the sources again (a processed toggle request, or a tool
  selection, which runs the same evaluation) the guard is installed if a source flag
  is set, and is not installed if none is set and the guard had not been installed
  over itself before. M401, M402 and a pin edge leave the live pulse handler as it
  was: they only set their flag or enqueue the toggle request.
\<close>

theorem guard_follows_sources_when_reevaluated:
  assumes "delegates_of_host s" and "unused_bits_clear s"
  shows "\<exists>s1 s'. run_updates (Suc (Suc depth)) us s = Inr s1
           \<and> run_updates (Suc (Suc depth)) (us @ [u]) s = Inr s'
           \<and> (if reevaluates u then guard_follows s1 s'
               else hal_stepper_pulse_start s' = hal_stepper_pulse_start s1)"
proof -
  from run_updates_total [OF assms, of depth us] obtain s1 where
    r1: "run_updates (Suc (Suc depth)) us s = Inr s1"
    and i1: "delegates_of_host s1" "unused_bits_clear s1" by blast
  from update_step [OF i1, of depth u] obtain s' where
    r2: "update (Suc (Suc depth)) u s1 = Inr s'"
    and p: "if reevaluates u then guard_follows s1 s'
            else hal_stepper_pulse_start s' = hal_stepper_pulse_start s1" by blast
  have "run_updates (Suc (Suc depth)) (us @ [u]) s = Inr s'"
    by (simp add: run_updates_append r1 r2)
  with r1 p show ?thesis by blast
qed

theorem guard_follows_sources_when_reevaluated_witness:
  "delegates_of_host booted \<and> unused_bits_clear booted
   \<and> reevaluates Process_toggle
   \<and> outcome guard_installed (run_updates (Suc (Suc 0)) ([M401 0] @ [Process_toggle]) booted)
       = Some True
   \<and> outcome probe_connected (run_updates (Suc (Suc 0)) ([M401 0] @ [Process_toggle]) booted)
       = Some (connected_zero\<lparr>mcode := True\<rparr>)"
proof -
  have a: "delegates_of_host booted"
    by (simp add: delegates_of_host_def booted_facts)
  have b: "unused_bits_clear booted"
    by (simp add: unused_bits_clear_def booted_facts connected_zero_def)
  have c: "outcome guard_installed
             (run_updates (Suc (Suc 0)) ([M401 0] @ [Process_toggle]) booted) = Some True"
    by (simp add: outcome_def guard_installed_def booted_facts mcode_number_def
      STATE_CHECK_MODE_def delay_ms_def enqueue_realtime_command_def emit_def Let_def
      connected_zero_def connected_value_def protection_on_def report_message_def get_state_def
      flags_zero_def)
  have d: "outcome probe_connected
             (run_updates (Suc (Suc 0)) ([M401 0] @ [Process_toggle]) booted) =
           Some (connected_zero\<lparr>mcode := True\<rparr>)"
    by (simp add: outcome_def guard_installed_def booted_facts mcode_number_def
      STATE_CHECK_MODE_def delay_ms_def enqueue_realtime_command_def emit_def Let_def
      connected_zero_def connected_value_def protection_on_def report_message_def get_state_def
      flags_zero_def)
  from guard_follows_sources_when_reevaluated [OF a b, of 0 "[M401 0]" Process_toggle] a b c d
  show ?thesis by simp
qed

text \<open>
  Two behaviours the statement above leaves aside. \<open>protection_on\<close> called twice in a
  row saves the guard itself, so the guard stays installed, with no handler saved,
  after every source has been cleared again; and a pulse request then finds the guard
  saved as its own successor. \<open>probe_completed\<close> installs the guard whether or not a
  source is set.
\<close>

lemma guard_stays_after_arming_twice:
  "outcome guard_installed
     (run_updates (Suc (Suc 0))
        [M401 0, Process_toggle, Process_toggle, M402 0, Process_toggle] booted) = Some True
   \<and> outcome probe_connected
     (run_updates (Suc (Suc 0))
        [M401 0, Process_toggle, Process_toggle, M402 0, Process_toggle] booted)
       = Some connected_zero
   \<and> outcome stepper_pulse_start
     (run_updates (Suc (Suc 0))
        [M401 0, Process_toggle, Process_toggle, M402 0, Process_toggle] booted) = Some None"
  by (simp add: outcome_def guard_installed_def booted_facts mcode_number_def
      STATE_CHECK_MODE_def delay_ms_def enqueue_realtime_command_def emit_def Let_def
      connected_zero_def connected_value_def protection_on_def protection_off_def
      report_message_def get_state_def flags_zero_def)

lemma on_pulse_start_self:
  "stepper_pulse_start s = Some ptr_on_pulse_start \<Longrightarrow>
   on_pulse_start depth stepper s = Inl Stack_exhausted"
  by (induction depth arbitrary: s)
    (simp_all add: Let_def report_message_def enqueue_realtime_command_def emit_def)

lemma probe_completed_arms_without_source:
  "probe_connected booted = connected_zero
   \<and> outcome guard_installed (probe_completed (Suc 0) booted) = Some True"
  by (simp add: outcome_def guard_installed_def booted_def probe_protect_init_def power_on_def
      Let_def emit_def protection_on_def limits_enable_def)

subsection \<open>Tool selection (C6)\<close>

text \<open>
  C6, as the claim states it, fails: with the external pin enabled and reading 1,
  selecting tool 5 sets the external-pin flag, which was clear before.
\<close>

theorem onToolSelected_rereads_external_pin:
  "probe_connected pin_high_unprocessed = connected_zero
   \<and> outcome probe_connected
       (onToolSelected (Suc (Suc 0)) \<lparr>tool_id = 5\<rparr> pin_high_unprocessed) =
     Some (connected_zero\<lparr>conn_ext_pin := True\<rparr>)"
  by (simp add: outcome_def pin_high_unprocessed_def booted_facts Let_def connected_zero_def
      wait_on_input_def flags_zero_def connected_value_def protection_on_def report_message_def
      emit_def get_state_def)

text \<open>
  C6, amended. With handlers of the host saved, a tool selection returns; afterwards
  the tool flag is set exactly if the tool's id is 99, whatever it was before, the
  command flag and the unused bits are as before, and the external-pin flag is as
  before when the external pin is not enabled in the settings, and otherwise is what
  the pin reads now.
\<close>

theorem onToolSelected_flags:
  assumes "probe_connected_toggle s \<noteq> Some ptr_on_probe_connected_toggle"
    and "on_tool_selected s \<noteq> Some ptr_onToolSelected"
  shows "\<exists>s'. onToolSelected (Suc (Suc depth)) tool s = Inr s'
            \<and> probe_connected s' =
                (probe_connected s)\<lparr>t99 := (tool_id tool = 99),
                                     conn_ext_pin := ext_pin_reading s\<rparr>
            \<and> current_tool s' = Some tool"
proof -
  define s2 where "s2 = s\<lparr>current_tool := Some tool,
                    probe_connected := (probe_connected s)\<lparr>t99 := (tool_id tool = 99)\<rparr>\<rparr>"
  from tool_returns [OF assms, of depth tool] obtain s' where
    r: "onToolSelected (Suc (Suc depth)) tool s = Inr s'"
    and u: "untraced s' = untraced (toggle_state s2)" by (auto simp: s2_def)
  have "ext_pin_reading s2 = ext_pin_reading s"
    by (simp add: ext_pin_reading_def s2_def wait_on_input_def)
  then have "probe_connected s' =
      (probe_connected s)\<lparr>t99 := (tool_id tool = 99), conn_ext_pin := ext_pin_reading s\<rparr>"
    using untraced_eq_fields(1) [OF u] by (simp add: toggle_state_fields s2_def)
  moreover have "current_tool s' = Some tool"
    using untraced_eq_fields(6) [OF u] by (simp add: toggle_state_fields s2_def)
  ultimately show ?thesis using r by blast
qed

theorem onToolSelected_flags_witness:
  "probe_connected_toggle pin_high_unprocessed \<noteq> Some ptr_on_probe_connected_toggle
   \<and> on_tool_selected pin_high_unprocessed \<noteq> Some ptr_onToolSelected
   \<and> ext_pin_reading pin_high_unprocessed
   \<and> outcome probe_connected
       (onToolSelected (Suc (Suc 0)) \<lparr>tool_id = 99\<rparr> pin_high_unprocessed) =
     Some (connected_zero\<lparr>t99 := True, conn_ext_pin := True\<rparr>)"
proof -
  have a: "probe_connected_toggle pin_high_unprocessed \<noteq> Some ptr_on_probe_connected_toggle"
    by (simp add: pin_high_unprocessed_def booted_facts)
  have b: "on_tool_selected pin_high_unprocessed \<noteq> Some ptr_onToolSelected"
    by (simp add: pin_high_unprocessed_def booted_facts)
  have c: "ext_pin_reading pin_high_unprocessed"
    by (simp add: ext_pin_reading_def pin_high_unprocessed_def wait_on_input_def flags_zero_def)
  have d: "probe_connected pin_high_unprocessed = connected_zero"
    by (simp add: pin_high_unprocessed_def booted_facts)
  from onToolSelected_flags [OF a b, of 0 "\<lparr>tool_id = 99\<rparr>"] a b c d
  show ?thesis by (auto simp: outcome_def)
qed

subsection \<open>The fixture probe (C7)\<close>







text \<open>
  A behaviour the statement above leaves aside: \<open>probe_reset\<close> does not take the
  redirected reader out. After a begin and a reset, the next cycle saves the
  redirected reader as the one to restore, and ends with it installed.
\<close>

lemma fixture_probe_cycle_after_reset_keeps_redirect:
  "probe_get_state begun_then_reset = Some (Host 2)
   \<and> hal_probe_get_state begun_then_reset = ptr_probeGetState
   \<and> outcome hal_probe_get_state
        (fixture_probe_cycle (Suc 0) \<lparr>tool_id = 1\<rparr> True True 0 0 0 begun_then_reset)
       = Some ptr_probeGetState"
  by (simp add: outcome_def begun_then_reset_def fixture_probe_cycle_def fixture_ready_def
      booted_def probe_protect_init_def power_on_def Let_def emit_def delay_ms_def
      limits_enable_def call_host_def view_def get_state_def protection_on_def
      protection_off_def)

end
